theory Spec2Isabelle
  imports Main "HOL-Library.Sublist"
begin

section \<open>Values of the JavaScript runtime\<close>

text \<open>
  Strings are byte lists: a JavaScript string is read as the UTF-8 encoding of its text.
  A thrown value is either an instance of \<open>Error\<close> (kept whole, with its name and
  message) or any other value, of which the code only ever uses \<open>String(value)\<close>.
\<close>

datatype js_error = JsError string string

datatype thrown = ThrownError js_error | ThrownOther string

text \<open>The expression \<open>error instanceof Error ? error : new Error(String(error))\<close>.\<close>

definition toError :: "thrown \<Rightarrow> js_error" where
  "toError error = (case error of ThrownError e \<Rightarrow> e | ThrownOther s \<Rightarrow> JsError ''Error'' s)"

text \<open>
  \<open>String.prototype.includes\<close>: the search string occurs somewhere in the string,
  compared code unit by code unit (so upper and lower case differ).
\<close>

fun String_includes :: "string \<Rightarrow> string \<Rightarrow> bool" where
  "String_includes [] searchString = (searchString = [])"
| "String_includes (c # cs) searchString =
     (prefix searchString (c # cs) \<or> String_includes cs searchString)"

definition alphanumeric :: "char \<Rightarrow> bool" where
  "alphanumeric c =
     (c \<in> set ''ABCDEFGHIJKLMNOPQRSTUVWXYZabcdefghijklmnopqrstuvwxyz0123456789'')"

text \<open>
  A \<open>Headers\<close> object is its header list. Names are compared without regard to ASCII
  case; \<open>get\<close> joins the values of all headers of that name with a comma and a space,
  and answers \<open>null\<close> (here \<open>None\<close>) when there is none.
\<close>

type_synonym Headers = "(string \<times> string) list"

definition ascii_lower :: "char \<Rightarrow> char" where
  "ascii_lower c =
     (if c \<in> set ''ABCDEFGHIJKLMNOPQRSTUVWXYZ''
      then (case c of Char b0 b1 b2 b3 b4 b5 b6 b7 \<Rightarrow> Char b0 b1 b2 b3 b4 True b6 b7)
      else c)"

definition byte_lowercase :: "string \<Rightarrow> string" where
  "byte_lowercase s = map ascii_lower s"

definition Headers_get :: "Headers \<Rightarrow> string \<Rightarrow> string option" where
  "Headers_get hs name =
     (case filter (\<lambda>(k, v). byte_lowercase k = byte_lowercase name) hs of
        [] \<Rightarrow> None
      | (k, v) # more \<Rightarrow> Some (foldl (\<lambda>acc (k', v'). acc @ '', '' @ v') v more))"

section \<open>The outcome types (core/strict-types.ts)\<close>

text \<open>
  The five boundary errors, each with its fields in the order of the type declaration:
  \<open>TransportError error\<close>, \<open>UnexpectedStatus status body\<close>,
  \<open>UnexpectedContentType status expected actual body\<close>,
  \<open>ParseError status contentType error body\<close> and
  \<open>DecodeError\<close> of a record \<open>DecodeErrorOf status contentType error body\<close>.
  A decoder can only fail with the last, which is why it is a type of its own.
\<close>

datatype 'c decode_error = DecodeErrorOf int string 'c string

datatype 'c BoundaryError =
    TransportError js_error
  | UnexpectedStatus int string
  | UnexpectedContentType int "string list" "string option" string
  | ParseError int string js_error string
  | DecodeError "'c decode_error"

text \<open>
  A response variant \<open>{status, contentType, body}\<close>; the body is \<open>None\<close> for
  \<open>undefined\<close>.
\<close>

record 'b ResponseVariant =
  status :: int
  contentType :: string
  body :: "'b option"

text \<open>
  The type-level filters \<open>SuccessVariants\<close> and \<open>HttpErrorVariants\<close> keep a variant
  by its status alone: the conditional type \<open>S extends 200 | 201 | ... | 208 | 226\<close>.
\<close>

definition SuccessVariants :: "'b ResponseVariant \<Rightarrow> bool" where
  "SuccessVariants v =
     (status v \<in> {200, 201, 202, 203, 204, 205, 206, 207, 208, 226})"

definition HttpErrorVariants :: "'b ResponseVariant \<Rightarrow> bool" where
  "HttpErrorVariants v =
     (if status v \<in> {200, 201, 202, 203, 204, 205, 206, 207, 208, 226} then False else True)"

section \<open>The dispatcher helpers (shell/api-client/strict-client.ts)\<close>

record RawResponse =
  rr_status :: int
  rr_headers :: Headers
  rr_text :: string

text \<open>
  An \<open>Effect<A, E>\<close> that needs no service is its result: \<open>Inl\<close> a failure of type
  \<open>E\<close>, \<open>Inr\<close> a success. \<open>JSON.parse\<close> is the runtime's and is a parameter: it
  returns the parsed value or what it threw. Parsed values are opaque (\<open>'j\<close>).

  The fields of a raw response carry the prefix \<open>rr_\<close>. Where the source names a
  parameter \<open>status\<close>, \<open>contentType\<close>, \<open>text\<close> or \<open>body\<close>, the definitions
  below write \<open>st\<close>, \<open>ctype\<close> (or \<open>ct\<close>), \<open>txt\<close> and \<open>bd\<close>: the long names
  are the fields of a response variant.
\<close>

type_synonym ('c, 'a) Effect = "'c BoundaryError + 'a"

definition createDispatcher ::
  "(int \<Rightarrow> string option \<Rightarrow> string \<Rightarrow> ('c, 'a) Effect) \<Rightarrow> RawResponse \<Rightarrow> ('c, 'a) Effect" where
  "createDispatcher classify response =
     (let ctype = Headers_get (rr_headers response) ''content-type''
      in classify (rr_status response) ctype (rr_text response))"

definition parseJSON ::
  "(string \<Rightarrow> thrown + 'j) \<Rightarrow> int \<Rightarrow> string \<Rightarrow> string \<Rightarrow> ('c, 'j) Effect" where
  "parseJSON JSON_parse st ct txt =
     (case JSON_parse txt of
        Inr parsed \<Rightarrow> Inr parsed
      | Inl error \<Rightarrow> Inl (ParseError st ct (toError error) txt))"

definition unexpectedStatus :: "int \<Rightarrow> string \<Rightarrow> 'c BoundaryError" where
  "unexpectedStatus st bd = UnexpectedStatus st bd"

definition unexpectedContentType ::
  "int \<Rightarrow> string list \<Rightarrow> string option \<Rightarrow> string \<Rightarrow> 'c BoundaryError" where
  "unexpectedContentType st expected actual bd = UnexpectedContentType st expected actual bd"

section \<open>The generated decoders and dispatchers (generated/)\<close>

text \<open>
  A decoder takes the status, the content type, the body text and the parsed value. The
  module \<open>Decoders\<close> is a record of the ten decoders, so that the dispatchers can be
  studied with any decoders in place of the generated stubs.
\<close>

type_synonym ('j, 'c, 'd) decoder = "int \<Rightarrow> string \<Rightarrow> string \<Rightarrow> 'j \<Rightarrow> 'c decode_error + 'd"

record ('j, 'c, 'd) Decoders =
  decodelistPets_200 :: "('j, 'c, 'd) decoder"
  decodelistPets_500 :: "('j, 'c, 'd) decoder"
  decodecreatePet_201 :: "('j, 'c, 'd) decoder"
  decodecreatePet_400 :: "('j, 'c, 'd) decoder"
  decodecreatePet_500 :: "('j, 'c, 'd) decoder"
  decodegetPet_200 :: "('j, 'c, 'd) decoder"
  decodegetPet_404 :: "('j, 'c, 'd) decoder"
  decodegetPet_500 :: "('j, 'c, 'd) decoder"
  decodedeletePet_404 :: "('j, 'c, 'd) decoder"
  decodedeletePet_500 :: "('j, 'c, 'd) decoder"

text \<open>The generated stubs: each always succeeds with the parsed value.\<close>

definition stub :: "('j, 'c, 'j) decoder" where
  "stub st ct bd parsed = Inr parsed"

definition generated_Decoders :: "('j, 'c, 'j) Decoders" where
  "generated_Decoders =
     \<lparr> decodelistPets_200 = stub, decodelistPets_500 = stub,
       decodecreatePet_201 = stub, decodecreatePet_400 = stub, decodecreatePet_500 = stub,
       decodegetPet_200 = stub, decodegetPet_404 = stub, decodegetPet_500 = stub,
       decodedeletePet_404 = stub, decodedeletePet_500 = stub \<rparr>"

text \<open>
  \<open>processJsonContent\<close>: the test \<open>contentType?.includes("application/json")\<close> is
  false for an absent header; the two \<open>yield*\<close> stop at the first failure.
\<close>

definition processJsonContent ::
  "(string \<Rightarrow> thrown + 'j) \<Rightarrow> int \<Rightarrow> string option \<Rightarrow> string \<Rightarrow> ('j, 'c, 'd) decoder
     \<Rightarrow> ('c, 'd ResponseVariant) Effect" where
  "processJsonContent JSON_parse st ctype txt decoder =
     (if (case ctype of None \<Rightarrow> False | Some ct \<Rightarrow> String_includes ct ''application/json'')
      then
        (case parseJSON JSON_parse st ''application/json'' txt of
           Inl e \<Rightarrow> Inl e
         | Inr parsed \<Rightarrow>
             (case decoder st ''application/json'' txt parsed of
                Inl e \<Rightarrow> Inl (DecodeError e)
              | Inr decoded \<Rightarrow>
                  Inr \<lparr> status = st, contentType = ''application/json'', body = Some decoded \<rparr>))
      else Inl (unexpectedContentType st [''application/json''] ctype txt))"

definition dispatcherlistPets ::
  "(string \<Rightarrow> thrown + 'j) \<Rightarrow> ('j, 'c, 'd) Decoders \<Rightarrow> RawResponse
     \<Rightarrow> ('c, 'd ResponseVariant) Effect" where
  "dispatcherlistPets JSON_parse D =
     createDispatcher (\<lambda>st ctype txt.
       if st = 200 then processJsonContent JSON_parse 200 ctype txt (decodelistPets_200 D)
       else if st = 500 then processJsonContent JSON_parse 500 ctype txt (decodelistPets_500 D)
       else Inl (unexpectedStatus st txt))"

definition dispatchercreatePet ::
  "(string \<Rightarrow> thrown + 'j) \<Rightarrow> ('j, 'c, 'd) Decoders \<Rightarrow> RawResponse
     \<Rightarrow> ('c, 'd ResponseVariant) Effect" where
  "dispatchercreatePet JSON_parse D =
     createDispatcher (\<lambda>st ctype txt.
       if st = 201 then processJsonContent JSON_parse 201 ctype txt (decodecreatePet_201 D)
       else if st = 400 then processJsonContent JSON_parse 400 ctype txt (decodecreatePet_400 D)
       else if st = 500 then processJsonContent JSON_parse 500 ctype txt (decodecreatePet_500 D)
       else Inl (unexpectedStatus st txt))"

definition dispatchergetPet ::
  "(string \<Rightarrow> thrown + 'j) \<Rightarrow> ('j, 'c, 'd) Decoders \<Rightarrow> RawResponse
     \<Rightarrow> ('c, 'd ResponseVariant) Effect" where
  "dispatchergetPet JSON_parse D =
     createDispatcher (\<lambda>st ctype txt.
       if st = 200 then processJsonContent JSON_parse 200 ctype txt (decodegetPet_200 D)
       else if st = 404 then processJsonContent JSON_parse 404 ctype txt (decodegetPet_404 D)
       else if st = 500 then processJsonContent JSON_parse 500 ctype txt (decodegetPet_500 D)
       else Inl (unexpectedStatus st txt))"

definition dispatcherdeletePet ::
  "(string \<Rightarrow> thrown + 'j) \<Rightarrow> ('j, 'c, 'd) Decoders \<Rightarrow> RawResponse
     \<Rightarrow> ('c, 'd ResponseVariant) Effect" where
  "dispatcherdeletePet JSON_parse D =
     createDispatcher (\<lambda>st ctype txt.
       if st = 204 then Inr \<lparr> status = 204, contentType = ''none'', body = None \<rparr>
       else if st = 404 then processJsonContent JSON_parse 404 ctype txt (decodedeletePet_404 D)
       else if st = 500 then processJsonContent JSON_parse 500 ctype txt (decodedeletePet_500 D)
       else Inl (unexpectedStatus st txt))"

text \<open>
  The dispatchers as the strict-effect-api-client package generates them: a
  \<open>switch (status)\<close> whose cases hold the content-type test, the parse and the decoding
  in line.
\<close>

definition dispatcherlistPets_switch ::
  "(string \<Rightarrow> thrown + 'j) \<Rightarrow> ('j, 'c, 'd) Decoders \<Rightarrow> RawResponse
     \<Rightarrow> ('c, 'd ResponseVariant) Effect" where
  "dispatcherlistPets_switch JSON_parse D =
     createDispatcher (\<lambda>st ctype txt.
       if st = 200 then
         (if (case ctype of None \<Rightarrow> False | Some ct \<Rightarrow> String_includes ct ''application/json'')
          then (case parseJSON JSON_parse st ''application/json'' txt of
                  Inl e \<Rightarrow> Inl e
                | Inr parsed \<Rightarrow>
                    (case decodelistPets_200 D st ''application/json'' txt parsed of
                       Inl e \<Rightarrow> Inl (DecodeError e)
                     | Inr decoded \<Rightarrow>
                         Inr \<lparr> status = 200, contentType = ''application/json'',
                               body = Some decoded \<rparr>))
          else Inl (unexpectedContentType st [''application/json''] ctype txt))
       else if st = 500 then
         (if (case ctype of None \<Rightarrow> False | Some ct \<Rightarrow> String_includes ct ''application/json'')
          then (case parseJSON JSON_parse st ''application/json'' txt of
                  Inl e \<Rightarrow> Inl e
                | Inr parsed \<Rightarrow>
                    (case decodelistPets_500 D st ''application/json'' txt parsed of
                       Inl e \<Rightarrow> Inl (DecodeError e)
                     | Inr decoded \<Rightarrow>
                         Inr \<lparr> status = 500, contentType = ''application/json'',
                               body = Some decoded \<rparr>))
          else Inl (unexpectedContentType st [''application/json''] ctype txt))
       else Inl (unexpectedStatus st txt))"

definition dispatchercreatePet_switch ::
  "(string \<Rightarrow> thrown + 'j) \<Rightarrow> ('j, 'c, 'd) Decoders \<Rightarrow> RawResponse
     \<Rightarrow> ('c, 'd ResponseVariant) Effect" where
  "dispatchercreatePet_switch JSON_parse D =
     createDispatcher (\<lambda>st ctype txt.
       if st = 201 then
         (if (case ctype of None \<Rightarrow> False | Some ct \<Rightarrow> String_includes ct ''application/json'')
          then (case parseJSON JSON_parse st ''application/json'' txt of
                  Inl e \<Rightarrow> Inl e
                | Inr parsed \<Rightarrow>
                    (case decodecreatePet_201 D st ''application/json'' txt parsed of
                       Inl e \<Rightarrow> Inl (DecodeError e)
                     | Inr decoded \<Rightarrow>
                         Inr \<lparr> status = 201, contentType = ''application/json'',
                               body = Some decoded \<rparr>))
          else Inl (unexpectedContentType st [''application/json''] ctype txt))
       else if st = 400 then
         (if (case ctype of None \<Rightarrow> False | Some ct \<Rightarrow> String_includes ct ''application/json'')
          then (case parseJSON JSON_parse st ''application/json'' txt of
                  Inl e \<Rightarrow> Inl e
                | Inr parsed \<Rightarrow>
                    (case decodecreatePet_400 D st ''application/json'' txt parsed of
                       Inl e \<Rightarrow> Inl (DecodeError e)
                     | Inr decoded \<Rightarrow>
                         Inr \<lparr> status = 400, contentType = ''application/json'',
                               body = Some decoded \<rparr>))
          else Inl (unexpectedContentType st [''application/json''] ctype txt))
       else if st = 500 then
         (if (case ctype of None \<Rightarrow> False | Some ct \<Rightarrow> String_includes ct ''application/json'')
          then (case parseJSON JSON_parse st ''application/json'' txt of
                  Inl e \<Rightarrow> Inl e
                | Inr parsed \<Rightarrow>
                    (case decodecreatePet_500 D st ''application/json'' txt parsed of
                       Inl e \<Rightarrow> Inl (DecodeError e)
                     | Inr decoded \<Rightarrow>
                         Inr \<lparr> status = 500, contentType = ''application/json'',
                               body = Some decoded \<rparr>))
          else Inl (unexpectedContentType st [''application/json''] ctype txt))
       else Inl (unexpectedStatus st txt))"

definition dispatchergetPet_switch ::
  "(string \<Rightarrow> thrown + 'j) \<Rightarrow> ('j, 'c, 'd) Decoders \<Rightarrow> RawResponse
     \<Rightarrow> ('c, 'd ResponseVariant) Effect" where
  "dispatchergetPet_switch JSON_parse D =
     createDispatcher (\<lambda>st ctype txt.
       if st = 200 then
         (if (case ctype of None \<Rightarrow> False | Some ct \<Rightarrow> String_includes ct ''application/json'')
          then (case parseJSON JSON_parse st ''application/json'' txt of
                  Inl e \<Rightarrow> Inl e
                | Inr parsed \<Rightarrow>
                    (case decodegetPet_200 D st ''application/json'' txt parsed of
                       Inl e \<Rightarrow> Inl (DecodeError e)
                     | Inr decoded \<Rightarrow>
                         Inr \<lparr> status = 200, contentType = ''application/json'',
                               body = Some decoded \<rparr>))
          else Inl (unexpectedContentType st [''application/json''] ctype txt))
       else if st = 404 then
         (if (case ctype of None \<Rightarrow> False | Some ct \<Rightarrow> String_includes ct ''application/json'')
          then (case parseJSON JSON_parse st ''application/json'' txt of
                  Inl e \<Rightarrow> Inl e
                | Inr parsed \<Rightarrow>
                    (case decodegetPet_404 D st ''application/json'' txt parsed of
                       Inl e \<Rightarrow> Inl (DecodeError e)
                     | Inr decoded \<Rightarrow>
                         Inr \<lparr> status = 404, contentType = ''application/json'',
                               body = Some decoded \<rparr>))
          else Inl (unexpectedContentType st [''application/json''] ctype txt))
       else if st = 500 then
         (if (case ctype of None \<Rightarrow> False | Some ct \<Rightarrow> String_includes ct ''application/json'')
          then (case parseJSON JSON_parse st ''application/json'' txt of
                  Inl e \<Rightarrow> Inl e
                | Inr parsed \<Rightarrow>
                    (case decodegetPet_500 D st ''application/json'' txt parsed of
                       Inl e \<Rightarrow> Inl (DecodeError e)
                     | Inr decoded \<Rightarrow>
                         Inr \<lparr> status = 500, contentType = ''application/json'',
                               body = Some decoded \<rparr>))
          else Inl (unexpectedContentType st [''application/json''] ctype txt))
       else Inl (unexpectedStatus st txt))"

definition dispatcherdeletePet_switch ::
  "(string \<Rightarrow> thrown + 'j) \<Rightarrow> ('j, 'c, 'd) Decoders \<Rightarrow> RawResponse
     \<Rightarrow> ('c, 'd ResponseVariant) Effect" where
  "dispatcherdeletePet_switch JSON_parse D =
     createDispatcher (\<lambda>st ctype txt.
       if st = 204 then Inr \<lparr> status = 204, contentType = ''none'', body = None \<rparr>
       else if st = 404 then
         (if (case ctype of None \<Rightarrow> False | Some ct \<Rightarrow> String_includes ct ''application/json'')
          then (case parseJSON JSON_parse st ''application/json'' txt of
                  Inl e \<Rightarrow> Inl e
                | Inr parsed \<Rightarrow>
                    (case decodedeletePet_404 D st ''application/json'' txt parsed of
                       Inl e \<Rightarrow> Inl (DecodeError e)
                     | Inr decoded \<Rightarrow>
                         Inr \<lparr> status = 404, contentType = ''application/json'',
                               body = Some decoded \<rparr>))
          else Inl (unexpectedContentType st [''application/json''] ctype txt))
       else if st = 500 then
         (if (case ctype of None \<Rightarrow> False | Some ct \<Rightarrow> String_includes ct ''application/json'')
          then (case parseJSON JSON_parse st ''application/json'' txt of
                  Inl e \<Rightarrow> Inl e
                | Inr parsed \<Rightarrow>
                    (case decodedeletePet_500 D st ''application/json'' txt parsed of
                       Inl e \<Rightarrow> Inl (DecodeError e)
                     | Inr decoded \<Rightarrow>
                         Inr \<lparr> status = 500, contentType = ''application/json'',
                               body = Some decoded \<rparr>))
          else Inl (unexpectedContentType st [''application/json''] ctype txt))
       else Inl (unexpectedStatus st txt))"

section \<open>The schema table and the outcome variants\<close>

datatype operation = listPets | createPet | getPet | deletePet

fun dispatcher ::
  "(string \<Rightarrow> thrown + 'j) \<Rightarrow> ('j, 'c, 'd) Decoders \<Rightarrow> operation \<Rightarrow> RawResponse
     \<Rightarrow> ('c, 'd ResponseVariant) Effect" where
  "dispatcher JSON_parse D listPets = dispatcherlistPets JSON_parse D"
| "dispatcher JSON_parse D createPet = dispatchercreatePet JSON_parse D"
| "dispatcher JSON_parse D getPet = dispatchergetPet JSON_parse D"
| "dispatcher JSON_parse D deletePet = dispatcherdeletePet JSON_parse D"

text \<open>
  Modelled from the spec: the schema table of the four operations, a mapping from status
  to the accepted content types, each with its decoder; a status with no body maps to the
  empty list. The schema document the dispatchers were generated from
  (tests/fixtures/petstore.openapi.json) is not among the sources: the entries are the
  statuses listed in the doc comment of each dispatcher (``Handles statuses: 200, 500'')
  and the content type named in the doc comment of each decoder
  (``Decoder for listPets status 200 (application/json)'').
\<close>

fun schema_table ::
  "('j, 'c, 'd) Decoders \<Rightarrow> operation \<Rightarrow> int \<Rightarrow> (string \<times> ('j, 'c, 'd) decoder) list option" where
  "schema_table D listPets st =
     (if st = 200 then Some [(''application/json'', decodelistPets_200 D)]
      else if st = 500 then Some [(''application/json'', decodelistPets_500 D)]
      else None)"
| "schema_table D createPet st =
     (if st = 201 then Some [(''application/json'', decodecreatePet_201 D)]
      else if st = 400 then Some [(''application/json'', decodecreatePet_400 D)]
      else if st = 500 then Some [(''application/json'', decodecreatePet_500 D)]
      else None)"
| "schema_table D getPet st =
     (if st = 200 then Some [(''application/json'', decodegetPet_200 D)]
      else if st = 404 then Some [(''application/json'', decodegetPet_404 D)]
      else if st = 500 then Some [(''application/json'', decodegetPet_500 D)]
      else None)"
| "schema_table D deletePet st =
     (if st = 204 then Some []
      else if st = 404 then Some [(''application/json'', decodedeletePet_404 D)]
      else if st = 500 then Some [(''application/json'', decodedeletePet_500 D)]
      else None)"

text \<open>
  The content-type test of the dispatchers, for any declared type:
  \<open>contentType?.includes(declared)\<close>.
\<close>

definition header_includes :: "string option \<Rightarrow> string \<Rightarrow> bool" where
  "header_includes ctype declared =
     (case ctype of None \<Rightarrow> False | Some h \<Rightarrow> String_includes h declared)"

definition content_type_of :: "RawResponse \<Rightarrow> string option" where
  "content_type_of r = Headers_get (rr_headers r) ''content-type''"

text \<open>
  The first entry of a status whose content type the header includes, if any.
\<close>

definition matched_entry ::
  "string option \<Rightarrow> (string \<times> 'e) list \<Rightarrow> (string \<times> 'e) option" where
  "matched_entry ctype entries = find (\<lambda>(ct, d). header_includes ctype ct) entries"

text \<open>
  The seven variants of an outcome. A response variant counts as \<open>Success\<close> or as
  \<open>HttpError\<close> by the type-level filters.
\<close>

datatype Outcome_tag =
    Success | HttpError
  | Tag_TransportError | Tag_UnexpectedStatus | Tag_UnexpectedContentType
  | Tag_ParseError | Tag_DecodeError

fun tag_of :: "('c, 'd ResponseVariant) Effect \<Rightarrow> Outcome_tag" where
  "tag_of (Inr v) = (if SuccessVariants v then Success else HttpError)"
| "tag_of (Inl (TransportError e)) = Tag_TransportError"
| "tag_of (Inl (UnexpectedStatus st bd)) = Tag_UnexpectedStatus"
| "tag_of (Inl (UnexpectedContentType st expected actual bd)) = Tag_UnexpectedContentType"
| "tag_of (Inl (ParseError st ct e bd)) = Tag_ParseError"
| "tag_of (Inl (DecodeError e)) = Tag_DecodeError"

text \<open>
  How far a response gets through the decision sequence: whether its status is declared,
  whether the status has a body, whether the header matches a declared content type,
  whether the text parses, and whether the decoder of the matched entry accepts.
\<close>

definition reaches_decoder ::
  "(string \<Rightarrow> thrown + 'j) \<Rightarrow> ('j, 'c, 'd) Decoders \<Rightarrow> operation \<Rightarrow> RawResponse
     \<Rightarrow> ('c decode_error + 'd) option" where
  "reaches_decoder JSON_parse D opn r =
     (case schema_table D opn (rr_status r) of
        None \<Rightarrow> None
      | Some entries \<Rightarrow>
          (case matched_entry (content_type_of r) entries of
             None \<Rightarrow> None
           | Some (ct, d) \<Rightarrow>
               (case JSON_parse (rr_text r) of
                  Inl e \<Rightarrow> None
                | Inr parsed \<Rightarrow> Some (d (rr_status r) ct (rr_text r) parsed))))"

fun check ::
  "(string \<Rightarrow> thrown + 'j) \<Rightarrow> ('j, 'c, 'd) Decoders \<Rightarrow> operation \<Rightarrow> RawResponse
     \<Rightarrow> Outcome_tag \<Rightarrow> bool" where
  "check JSON_parse D opn r Tag_TransportError = False"
| "check JSON_parse D opn r Tag_UnexpectedStatus =
     (schema_table D opn (rr_status r) = None)"
| "check JSON_parse D opn r Tag_UnexpectedContentType =
     (case schema_table D opn (rr_status r) of
        None \<Rightarrow> False
      | Some entries \<Rightarrow> entries \<noteq> [] \<and> matched_entry (content_type_of r) entries = None)"
| "check JSON_parse D opn r Tag_ParseError =
     (case schema_table D opn (rr_status r) of
        None \<Rightarrow> False
      | Some entries \<Rightarrow>
          matched_entry (content_type_of r) entries \<noteq> None \<and> isl (JSON_parse (rr_text r)))"
| "check JSON_parse D opn r Tag_DecodeError =
     (case reaches_decoder JSON_parse D opn r of None \<Rightarrow> False | Some res \<Rightarrow> isl res)"
| "check JSON_parse D opn r Success =
     ((schema_table D opn (rr_status r) = Some []
        \<or> (case reaches_decoder JSON_parse D opn r of None \<Rightarrow> False | Some res \<Rightarrow> \<not> isl res))
      \<and> rr_status r \<in> {200, 201, 202, 203, 204, 205, 206, 207, 208, 226})"
| "check JSON_parse D opn r HttpError =
     ((schema_table D opn (rr_status r) = Some []
        \<or> (case reaches_decoder JSON_parse D opn r of None \<Rightarrow> False | Some res \<Rightarrow> \<not> isl res))
      \<and> rr_status r \<notin> {200, 201, 202, 203, 204, 205, 206, 207, 208, 226})"

text \<open>
  The sentence ``for every declared status whose content-type header matches no declared
  content type, the outcome is UnexpectedContentType'', for one response.
\<close>

definition mismatch_gives_UnexpectedContentType ::
  "(string \<Rightarrow> thrown + 'j) \<Rightarrow> ('j, 'c, 'd) Decoders \<Rightarrow> operation \<Rightarrow> RawResponse \<Rightarrow> bool" where
  "mismatch_gives_UnexpectedContentType JSON_parse D opn r =
     (case schema_table D opn (rr_status r) of
        None \<Rightarrow> True
      | Some entries \<Rightarrow>
          (if matched_entry (content_type_of r) entries = None
           then tag_of (dispatcher JSON_parse D opn r) = Tag_UnexpectedContentType
           else True))"

text \<open>
  The match step in the spec's words: the parameters of the header value (what follows the
  first semicolon) are stripped, and the base media type is compared with the declared one
  without regard to case.
\<close>

definition is_space :: "char \<Rightarrow> bool" where
  "is_space c = (c = CHR '' '' \<or> c = CHR 0x09)"

definition trim :: "string \<Rightarrow> string" where
  "trim s = rev (dropWhile is_space (rev (dropWhile is_space s)))"

definition base_media_type :: "string \<Rightarrow> string" where
  "base_media_type h = byte_lowercase (trim (takeWhile (\<lambda>c. c \<noteq> CHR '';'') h))"

definition media_type_matches :: "string option \<Rightarrow> string \<Rightarrow> bool" where
  "media_type_matches ctype declared =
     (case ctype of None \<Rightarrow> False | Some h \<Rightarrow> base_media_type h = byte_lowercase declared)"

text \<open>
  The sentence ``the match step strips the parameters and compares the base media type
  case-insensitively'', for one response: at a status with a body the dispatcher refuses
  the content type exactly when no declared type matches in that sense.
\<close>

definition match_step_compares_media_types ::
  "(string \<Rightarrow> thrown + 'j) \<Rightarrow> ('j, 'c, 'd) Decoders \<Rightarrow> operation \<Rightarrow> RawResponse \<Rightarrow> bool" where
  "match_step_compares_media_types JSON_parse D opn r =
     (case schema_table D opn (rr_status r) of
        None \<Rightarrow> True
      | Some entries \<Rightarrow>
          (if entries = [] then True
           else (tag_of (dispatcher JSON_parse D opn r) = Tag_UnexpectedContentType)
                = (find (\<lambda>(ct, d). media_type_matches (content_type_of r) ct) entries = None)))"

text \<open>
  The sentence ``for a declared status with a content type not in its declared set, the
  outcome is UnexpectedContentType with the full declared set as expected, the received
  header value as actual, and the raw body'', for one response; the content type of the
  header is in the declared set when a declared type matches it in the spec's sense.
\<close>

definition mismatch_reports_declared_set ::
  "(string \<Rightarrow> thrown + 'j) \<Rightarrow> ('j, 'c, 'd) Decoders \<Rightarrow> operation \<Rightarrow> RawResponse \<Rightarrow> bool" where
  "mismatch_reports_declared_set JSON_parse D opn r =
     (case schema_table D opn (rr_status r) of
        None \<Rightarrow> True
      | Some entries \<Rightarrow>
          (if find (\<lambda>(ct, d). media_type_matches (content_type_of r) ct) entries = None
           then dispatcher JSON_parse D opn r
                  = Inl (UnexpectedContentType (rr_status r) (map fst entries)
                       (content_type_of r) (rr_text r))
           else True))"

section \<open>The transport executor (shell/api-client/strict-client.ts)\<close>

text \<open>
  The functions of the HTTP library that build a request are left uninterpreted: a request
  is the term of the calls that made it. \<open>HttpMethod\<close> is the type of
  openapi-typescript-helpers; \<open>methodMap\<close> has no entry for \<open>trace\<close>.
\<close>

datatype HttpMethod = GET | PUT | POST | DELETE | OPTIONS | HEAD | PATCH | TRACE

datatype HttpClientRequest =
    HttpClientRequest_make HttpMethod string
  | HttpClientRequest_setHeaders HttpClientRequest "(string \<times> string) list"
  | HttpClientRequest_setBody HttpClientRequest string

definition methodMap :: "HttpMethod \<Rightarrow> (string \<Rightarrow> HttpClientRequest) option" where
  "methodMap m = (if m = TRACE then None else Some (HttpClientRequest_make m))"

text \<open>
  A \<open>HeadersInit\<close> is a \<open>Headers\<close> object (given by the pairs its iterator yields), an
  array of pairs or a record; a record is an association list in insertion order, and an
  assignment \<open>result[key] = value\<close> replaces the value of a key already there. A
  \<open>BodyInit\<close> is a string or another value, given by its \<open>JSON.stringify\<close> text.
\<close>

datatype HeadersInit =
    InitHeaders "(string \<times> string) list"
  | InitArray "(string \<times> string) list"
  | InitRecord "(string \<times> string) list"

datatype BodyInit = BodyString string | BodyOther string

fun assign :: "(string \<times> string) list \<Rightarrow> string \<Rightarrow> string \<Rightarrow> (string \<times> string) list" where
  "assign [] key v = [(key, v)]"
| "assign ((k, w) # kvs) key v = (if k = key then (k, v) # kvs else (k, w) # assign kvs key v)"

definition toRecordHeaders :: "HeadersInit \<Rightarrow> (string \<times> string) list" where
  "toRecordHeaders hdrs =
     (case hdrs of
        InitHeaders entries \<Rightarrow> foldl (\<lambda>result (key, v). assign result key v) [] entries
      | InitArray pairs \<Rightarrow> foldl (\<lambda>result (headerKey, headerValue). assign result headerKey headerValue) [] pairs
      | InitRecord rec \<Rightarrow> rec)"

text \<open>
  \<open>Headers.set\<close> first strips the HTTP whitespace (tab, line feed, carriage return,
  space) from both ends of the value, then throws a \<open>TypeError\<close> unless the name is a
  token (a non-empty string of letters, digits and \<open>! # $ % & ' * + - . ^ _ ` | ~\<close>) and
  the stripped value is free of the bytes 0, line feed and carriage return; the message
  of the error is the runtime's. Then the first header of that name takes the value and
  the others of that name are removed; a new name is appended. (Names and values are
  byte strings.)
\<close>

definition http_whitespace :: "char \<Rightarrow> bool" where
  "http_whitespace c = (c = CHR 0x09 \<or> c = CHR 0x0A \<or> c = CHR 0x0D \<or> c = CHR '' '')"

definition normalize_value :: "string \<Rightarrow> string" where
  "normalize_value v = rev (dropWhile http_whitespace (rev (dropWhile http_whitespace v)))"

definition valid_header_name :: "string \<Rightarrow> bool" where
  "valid_header_name name =
     (name \<noteq> [] \<and>
      list_all (\<lambda>c. alphanumeric c \<or> c \<in> set ''!#$%&*+-.^_|~'' \<or> c = CHR 0x27 \<or> c = CHR 0x60)
        name)"

definition valid_header_value :: "string \<Rightarrow> bool" where
  "valid_header_value v = list_all (\<lambda>c. c \<noteq> CHR 0x00 \<and> c \<noteq> CHR 0x0A \<and> c \<noteq> CHR 0x0D) v"

fun header_list_set :: "Headers \<Rightarrow> string \<Rightarrow> string \<Rightarrow> Headers" where
  "header_list_set [] name v = [(name, v)]"
| "header_list_set ((k, w) # hs) name v =
     (if byte_lowercase k = byte_lowercase name
      then (k, v) # filter (\<lambda>(k', w'). byte_lowercase k' \<noteq> byte_lowercase name) hs
      else (k, w) # header_list_set hs name v)"

definition Headers_set :: "Headers \<Rightarrow> string \<Rightarrow> string \<Rightarrow> thrown + Headers" where
  "Headers_set hs name v =
     (let v' = normalize_value v
      in if valid_header_name name \<and> valid_header_value v'
         then Inr (header_list_set hs name v')
         else Inl (ThrownError (JsError ''TypeError'' ''Invalid header'')))"

text \<open>
  \<open>toNativeHeaders\<close>: the loop over the entries of the record stops at the first
  \<open>set\<close> that throws.
\<close>

fun set_all :: "Headers \<Rightarrow> (string \<times> string) list \<Rightarrow> thrown + Headers" where
  "set_all hdrs [] = Inr hdrs"
| "set_all hdrs ((key, v) # entries) =
     (case Headers_set hdrs key v of
        Inl e \<Rightarrow> Inl e
      | Inr hdrs' \<Rightarrow> set_all hdrs' entries)"

definition toNativeHeaders :: "(string \<times> string) list \<Rightarrow> thrown + Headers" where
  "toNativeHeaders platformHeaders = set_all [] platformHeaders"

text \<open>
  An effect run to its end: a success, a failure in the typed error channel, or a defect
  (what \<open>Effect.die\<close> was given, or what was thrown while a generator of \<open>Effect.gen\<close>
  ran). \<open>Effect.mapError\<close> maps the failure and leaves a defect as it is.
\<close>

datatype ('e, 'a) Exit = Exit_succeed 'a | Exit_fail 'e | Exit_die thrown


text \<open>
  The request configuration. The abort signal is an opaque value (\<open>'s\<close>); the dispatcher
  is any function from a raw response to an effect, which may end in a defect as well.
\<close>

record ('c, 'a, 's) StrictRequestInit =
  cfg_method :: HttpMethod
  cfg_url :: string
  cfg_dispatcher :: "RawResponse \<Rightarrow> ('c BoundaryError, 'a) Exit"
  cfg_headers :: "HeadersInit option"
  cfg_body :: "BodyInit option"
  cfg_signal :: "'s option"

definition buildRequest :: "('c, 'a, 's) StrictRequestInit \<Rightarrow> HttpClientRequest" where
  "buildRequest config =
     (let createRequest =
            (case methodMap (cfg_method config) of
               Some f \<Rightarrow> f | None \<Rightarrow> HttpClientRequest_make GET);
          request = createRequest (cfg_url config);
          request =
            (case cfg_headers config of
               None \<Rightarrow> request
             | Some hdrs \<Rightarrow> HttpClientRequest_setHeaders request (toRecordHeaders hdrs));
          request =
            (case cfg_body config of
               None \<Rightarrow> request
             | Some b \<Rightarrow>
                 HttpClientRequest_setBody request
                   (case b of BodyString bodyText \<Rightarrow> bodyText | BodyOther bodyText \<Rightarrow> bodyText))
      in request)"

text \<open>
  The response of the HTTP client: its status, its headers (a record) and the effect
  \<open>response.text\<close>. The client itself is the service \<open>HttpClient\<close>, a parameter:
  \<open>execute\<close> yields a response, fails with what went wrong (a refused connection, a
  timeout, an abort) or dies. \<open>executeRequest\<close> runs \<open>client.execute\<close>, then
  \<open>response.text\<close>, then builds the raw response, where \<open>toNativeHeaders\<close> may
  throw inside the generator; \<open>Effect.mapError\<close> wraps the three, and the dispatcher
  runs on the raw response.
\<close>

record HttpClientResponse =
  response_status :: int
  response_headers :: "(string \<times> string) list"
  response_text :: "(thrown, string) Exit"

definition executeRequest ::
  "(HttpClientRequest \<Rightarrow> (thrown, HttpClientResponse) Exit) \<Rightarrow> ('c, 'a, 's) StrictRequestInit
     \<Rightarrow> ('c BoundaryError, 'a) Exit" where
  "executeRequest client config =
     (let request = buildRequest config in
      case (case client request of
              Exit_fail error \<Rightarrow> Exit_fail error
            | Exit_die defect \<Rightarrow> Exit_die defect
            | Exit_succeed response \<Rightarrow>
                (case response_text response of
                   Exit_fail error \<Rightarrow> Exit_fail error
                 | Exit_die defect \<Rightarrow> Exit_die defect
                 | Exit_succeed txt \<Rightarrow>
                     (case toNativeHeaders (response_headers response) of
                        Inl defect \<Rightarrow> Exit_die defect
                      | Inr hdrs \<Rightarrow>
                          Exit_succeed
                            \<lparr> rr_status = response_status response, rr_headers = hdrs,
                              rr_text = txt \<rparr>)))
      of
        Exit_fail error \<Rightarrow> Exit_fail (TransportError (toError error))
      | Exit_die defect \<Rightarrow> Exit_die defect
      | Exit_succeed rawResponse \<Rightarrow> cfg_dispatcher config rawResponse)"







section \<open>The client facade (shell/api-client/strict-client.ts)\<close>

text \<open>
  \<open>String.prototype.replace\<close> with a string pattern replaces the first occurrence of
  the pattern and nothing else. (A dollar sign in the replacement would be read as a
  substitution pattern; \<open>encodeURIComponent\<close> never produces one.)
\<close>

fun String_replace :: "string \<Rightarrow> string \<Rightarrow> string \<Rightarrow> string" where
  "String_replace [] pattern replacement = (if pattern = [] then replacement else [])"
| "String_replace (c # cs) pattern replacement =
     (if prefix pattern (c # cs) then replacement @ drop (length pattern) (c # cs)
      else c # String_replace cs pattern replacement)"

text \<open>
  \<open>encodeURIComponent\<close> keeps the letters, the digits and \<open>- _ . ! ~ * ' ( )\<close> and
  writes every other byte of the UTF-8 encoding as a percent sign and two upper-case
  hexadecimal digits. (A string with a lone surrogate, on which it throws, has no UTF-8
  encoding and is not a value of this model.)
\<close>

definition hex_digit :: "nat \<Rightarrow> char" where
  "hex_digit n = ''0123456789ABCDEF'' ! n"

definition percent_encode :: "char \<Rightarrow> string" where
  "percent_encode c =
     [CHR ''%'', hex_digit ((of_char c :: nat) div 16), hex_digit ((of_char c :: nat) mod 16)]"

definition encodeURIComponent :: "string \<Rightarrow> string" where
  "encodeURIComponent s =
     concat (map (\<lambda>c. if alphanumeric c \<or> c \<in> set ''-_.!~*()'' \<or> c = CHR 0x27
                       then [c] else percent_encode c) s)"

text \<open>
  \<open>URLSearchParams\<close>: a list of pairs; \<open>append\<close> adds one at the end; \<open>toString\<close>
  is the form-urlencoded serialisation, which keeps the letters, the digits and
  \<open>* - . _\<close>, writes a space as a plus sign and percent-encodes every other byte.
\<close>

definition URLSearchParams_append ::
  "(string \<times> string) list \<Rightarrow> string \<Rightarrow> string \<Rightarrow> (string \<times> string) list" where
  "URLSearchParams_append params key v = params @ [(key, v)]"

definition form_urlencode :: "string \<Rightarrow> string" where
  "form_urlencode s =
     concat (map (\<lambda>c. if alphanumeric c \<or> c \<in> set ''*-._'' then [c]
                       else if c = CHR '' '' then ''+'' else percent_encode c) s)"

fun join_pairs :: "string list \<Rightarrow> string" where
  "join_pairs [] = []"
| "join_pairs [p] = p"
| "join_pairs (p # q # ps) = p @ ''&'' @ join_pairs (q # ps)"

definition URLSearchParams_toString :: "(string \<times> string) list \<Rightarrow> string" where
  "URLSearchParams_toString params =
     join_pairs (map (\<lambda>(key, v). form_urlencode key @ ''='' @ form_urlencode v) params)"

text \<open>
  The options of a request. The path and query parameters are the entries of the records
  in the order \<open>Object.entries\<close> yields them, each value given by \<open>String(value)\<close>,
  the only way the code reads it.
\<close>

record ('c, 'a, 's) RequestOptions =
  opt_dispatcher :: "RawResponse \<Rightarrow> ('c BoundaryError, 'a) Exit"
  opt_baseUrl :: string
  opt_params :: "(string \<times> string) list option"
  opt_query :: "(string \<times> string) list option"
  opt_headers :: "HeadersInit option"
  opt_body :: "BodyInit option"
  opt_signal :: "'s option"

text \<open>The URL that \<open>makeRequest\<close> computes before it builds the configuration.\<close>

definition makeRequest_url :: "string \<Rightarrow> ('c, 'a, 's) RequestOptions \<Rightarrow> string" where
  "makeRequest_url path options =
     (let url = opt_baseUrl options @ path;
          url =
            (case opt_params options of
               None \<Rightarrow> url
             | Some entries \<Rightarrow>
                 foldl (\<lambda>url (key, v).
                          String_replace url (''{'' @ key @ ''}'') (encodeURIComponent v))
                   url entries);
          url =
            (case opt_query options of
               None \<Rightarrow> url
             | Some entries \<Rightarrow>
                 url @ ''?'' @
                 URLSearchParams_toString
                   (foldl (\<lambda>params (key, v). URLSearchParams_append params key v) [] entries))
      in url)"

definition makeRequest ::
  "(HttpClientRequest \<Rightarrow> (thrown, HttpClientResponse) Exit) \<Rightarrow> HttpMethod \<Rightarrow> string
     \<Rightarrow> ('c, 'a, 's) RequestOptions \<Rightarrow> ('c BoundaryError, 'a) Exit" where
  "makeRequest client m path options =
     executeRequest client
       \<lparr> cfg_method = m, cfg_url = makeRequest_url path options,
         cfg_dispatcher = opt_dispatcher options, cfg_headers = opt_headers options,
         cfg_body = opt_body options, cfg_signal = opt_signal options \<rparr>"

text \<open>
  A stand-in for \<open>JSON.parse\<close> in the concrete evaluations below: it accepts the two
  texts \<open>[]\<close> and \<open>{}\<close>, whose value is the text itself, and throws a
  \<open>SyntaxError\<close> on every other text.
\<close>

definition sample_parse :: "string \<Rightarrow> thrown + string" where
  "sample_parse txt =
     (if txt = ''[]'' \<or> txt = ''{}'' then Inr txt
      else Inl (ThrownError (JsError ''SyntaxError'' ''Unexpected token'')))"

text \<open>The generated decoders at the types of the stand-in parser.\<close>

abbreviation stubs :: "(string, unit, string) Decoders" where
  "stubs \<equiv> generated_Decoders"

section \<open>Properties of the helpers\<close>

lemma processJsonContent_no_match:
  "\<not> header_includes ctype ''application/json'' \<Longrightarrow>
   processJsonContent JSON_parse st ctype txt d
     = Inl (UnexpectedContentType st [''application/json''] ctype txt)"
  by (simp add: processJsonContent_def header_includes_def unexpectedContentType_def)

lemma processJsonContent_parse_error:
  "header_includes ctype ''application/json'' \<Longrightarrow> JSON_parse txt = Inl e \<Longrightarrow>
   processJsonContent JSON_parse st ctype txt d
     = Inl (ParseError st ''application/json'' (toError e) txt)"
  by (simp add: processJsonContent_def header_includes_def parseJSON_def)

lemma processJsonContent_decoded:
  "header_includes ctype ''application/json'' \<Longrightarrow> JSON_parse txt = Inr parsed \<Longrightarrow>
   processJsonContent JSON_parse st ctype txt d
     = (case d st ''application/json'' txt parsed of
          Inl e \<Rightarrow> Inl (DecodeError e)
        | Inr decoded \<Rightarrow>
            Inr \<lparr> status = st, contentType = ''application/json'', body = Some decoded \<rparr>)"
  by (simp add: processJsonContent_def header_includes_def parseJSON_def)

text \<open>
  Every dispatcher follows its row of the schema table: an undeclared status, a status
  with no body, and a status with the one JSON entry.
\<close>

lemma dispatcher_undeclared:
  "schema_table D opn (rr_status r) = None \<Longrightarrow>
   dispatcher JSON_parse D opn r = Inl (UnexpectedStatus (rr_status r) (rr_text r))"
  by (cases opn)
     (simp_all add: dispatcherlistPets_def dispatchercreatePet_def dispatchergetPet_def
        dispatcherdeletePet_def createDispatcher_def unexpectedStatus_def split: if_splits)

lemma dispatcher_no_body:
  "schema_table D opn (rr_status r) = Some [] \<Longrightarrow>
   dispatcher JSON_parse D opn r
     = Inr \<lparr> status = rr_status r, contentType = ''none'', body = None \<rparr>"
  by (cases opn)
     (simp_all add: dispatcherdeletePet_def createDispatcher_def split: if_splits)

lemma dispatcher_json:
  "schema_table D opn (rr_status r) = Some (e # es) \<Longrightarrow>
   fst e = ''application/json'' \<and> es = [] \<and>
   dispatcher JSON_parse D opn r
     = processJsonContent JSON_parse (rr_status r) (content_type_of r) (rr_text r) (snd e)"
  by (cases opn)
     (auto simp add: dispatcherlistPets_def dispatchercreatePet_def dispatchergetPet_def
        dispatcherdeletePet_def createDispatcher_def content_type_of_def split: if_splits)

text \<open>The two generated forms of each dispatcher are the same function.\<close>

lemma switch_dispatchers_agree:
  "dispatcherlistPets_switch JSON_parse D = dispatcherlistPets JSON_parse D"
  "dispatchercreatePet_switch JSON_parse D = dispatchercreatePet JSON_parse D"
  "dispatchergetPet_switch JSON_parse D = dispatchergetPet JSON_parse D"
  "dispatcherdeletePet_switch JSON_parse D = dispatcherdeletePet JSON_parse D"
  by (auto simp add: dispatcherlistPets_switch_def dispatchercreatePet_switch_def
        dispatchergetPet_switch_def dispatcherdeletePet_switch_def
        dispatcherlistPets_def dispatchercreatePet_def dispatchergetPet_def
        dispatcherdeletePet_def processJsonContent_def createDispatcher_def fun_eq_iff Let_def
      split: sum.splits option.splits)

text \<open>
  At a status with a body the outcome is decided by the header, then by \<open>JSON.parse\<close>,
  then by the decoder of the matched entry.
\<close>

lemma dispatcher_mismatch:
  assumes "schema_table D opn (rr_status r) = Some entries" and "entries \<noteq> []"
    and "matched_entry (content_type_of r) entries = None"
  shows "dispatcher JSON_parse D opn r
     = Inl (UnexpectedContentType (rr_status r) (map fst entries) (content_type_of r) (rr_text r))"
proof -
  from assms(2) obtain e es where entries: "entries = e # es" by (cases entries) auto
  from dispatcher_json [of D opn r e es JSON_parse] assms(1) entries
  have ct: "fst e = ''application/json''" and es: "es = []"
    and run: "dispatcher JSON_parse D opn r
      = processJsonContent JSON_parse (rr_status r) (content_type_of r) (rr_text r) (snd e)"
    by simp_all
  from assms(3) entries ct have "\<not> header_includes (content_type_of r) ''application/json''"
    by (cases e) (auto simp add: matched_entry_def split: if_splits)
  then show ?thesis
    by (simp add: run processJsonContent_no_match entries es ct)
qed

lemma dispatcher_matched:
  assumes "schema_table D opn (rr_status r) = Some entries"
    and "matched_entry (content_type_of r) entries = Some (ct, d)"
  shows "dispatcher JSON_parse D opn r
     = (case JSON_parse (rr_text r) of
          Inl e \<Rightarrow> Inl (ParseError (rr_status r) ct (toError e) (rr_text r))
        | Inr parsed \<Rightarrow>
            (case d (rr_status r) ct (rr_text r) parsed of
               Inl e \<Rightarrow> Inl (DecodeError e)
             | Inr decoded \<Rightarrow>
                 Inr \<lparr> status = rr_status r, contentType = ct, body = Some decoded \<rparr>))"
proof -
  from assms(2) obtain e es where entries: "entries = e # es"
    by (cases entries) (auto simp add: matched_entry_def)
  from dispatcher_json [of D opn r e es JSON_parse] assms(1) entries
  have ctj: "fst e = ''application/json''" and es: "es = []"
    and run: "dispatcher JSON_parse D opn r
      = processJsonContent JSON_parse (rr_status r) (content_type_of r) (rr_text r) (snd e)"
    by simp_all
  obtain c0 d0 where e0: "e = (c0, d0)" by (cases e)
  from assms(2) entries es e0
  have "c0 = ct" and "d0 = d" and "header_includes (content_type_of r) c0"
    by (auto simp add: matched_entry_def split: if_splits)
  with e0 ctj
  have e: "e = (''application/json'', d)" and ct: "ct = ''application/json''"
    and inc: "header_includes (content_type_of r) ''application/json''"
    by simp_all
  show ?thesis
    unfolding ct
    by (cases "JSON_parse (rr_text r)")
       (simp_all add: run e inc processJsonContent_parse_error processJsonContent_decoded)
qed

text \<open>\<open>String_includes\<close> is the test for a contiguous substring.\<close>

lemma String_includes_iff:
  "String_includes s p = (\<exists>pre post. s = pre @ p @ post)"
proof (induction s)
  case Nil
  then show ?case by auto
next
  case (Cons c cs)
  show ?case
  proof
    assume "String_includes (c # cs) p"
    then consider "prefix p (c # cs)" | "String_includes cs p" by auto
    then show "\<exists>pre post. c # cs = pre @ p @ post"
    proof cases
      case 1
      then obtain post where "c # cs = p @ post" by (auto simp add: prefix_def)
      then have "c # cs = [] @ p @ post" by simp
      then show ?thesis by blast
    next
      case 2
      with Cons.IH obtain pre post where "cs = pre @ p @ post" by auto
      then have "c # cs = (c # pre) @ p @ post" by simp
      then show ?thesis by blast
    qed
  next
    assume "\<exists>pre post. c # cs = pre @ p @ post"
    then obtain pre post where eq: "c # cs = pre @ p @ post" by auto
    show "String_includes (c # cs) p"
    proof (cases pre)
      case Nil
      with eq have "prefix p (c # cs)" by (simp add: prefix_def)
      then show ?thesis by simp
    next
      case (Cons a pre')
      with eq have "cs = pre' @ p @ post" by simp
      with Cons.IH have "String_includes cs p" by blast
      then show ?thesis by simp
    qed
  qed
qed

lemmas eval_defs = dispatcherlistPets_def dispatchercreatePet_def dispatchergetPet_def
  dispatcherdeletePet_def createDispatcher_def processJsonContent_def parseJSON_def
  unexpectedStatus_def unexpectedContentType_def Headers_get_def byte_lowercase_def
  ascii_lower_def sample_parse_def generated_Decoders_def stub_def toError_def
  content_type_of_def matched_entry_def header_includes_def SuccessVariants_def

section \<open>Exactly one variant\<close>

text \<open>
  A check holds for a response exactly when it is the variant the dispatcher produces.
\<close>

lemma check_iff:
  "check JSON_parse D opn r t = (t = tag_of (dispatcher JSON_parse D opn r))"
proof (cases "schema_table D opn (rr_status r)")
  case None
  then show ?thesis
    by (cases t) (auto simp add: dispatcher_undeclared reaches_decoder_def)
next
  case (Some entries)
  show ?thesis
  proof (cases entries)
    case Nil
    with Some have tbl: "schema_table D opn (rr_status r) = Some []" by simp
    show ?thesis
      by (cases t)
         (auto simp add: tbl dispatcher_no_body [OF tbl] reaches_decoder_def matched_entry_def
            SuccessVariants_def)
  next
    case (Cons e es)
    with Some have tbl: "schema_table D opn (rr_status r) = Some (e # es)" by simp
    from dispatcher_json [OF tbl, of JSON_parse]
    have ct: "fst e = ''application/json''" and es: "es = []"
      and run: "dispatcher JSON_parse D opn r
        = processJsonContent JSON_parse (rr_status r) (content_type_of r) (rr_text r) (snd e)"
      by simp_all
    obtain d where e: "e = (''application/json'', d)" using ct by (cases e) simp
    show ?thesis
    proof (cases "header_includes (content_type_of r) ''application/json''")
      case False
      then show ?thesis
        by (cases t)
           (auto simp add: tbl run e es processJsonContent_no_match reaches_decoder_def
              matched_entry_def)
    next
      case True
      show ?thesis
      proof (cases "JSON_parse (rr_text r)")
        case (Inl err)
        then show ?thesis
          by (cases t)
             (auto simp add: tbl run e es True processJsonContent_parse_error
                reaches_decoder_def matched_entry_def)
      next
        case (Inr parsed)
        then show ?thesis
          by (cases t; cases "d (rr_status r) ''application/json'' (rr_text r) parsed")
             (auto simp add: tbl run e es True processJsonContent_decoded
                reaches_decoder_def matched_entry_def SuccessVariants_def)
      qed
    qed
  qed
qed

text \<open>
  C1. For every response, every operation of the schema table, every behaviour of
  \<open>JSON.parse\<close> and every decoders, exactly one of the seven checks holds (they exclude
  each other and leave no response out), and the outcome the dispatcher produces is the
  variant of the check that holds.
\<close>

theorem classifier_exactly_one_variant:
  "(\<exists>!t. check JSON_parse D opn r t)
   \<and> check JSON_parse D opn r (tag_of (dispatcher JSON_parse D opn r))"
  by (simp add: check_iff)

theorem classifier_exactly_one_variant_witness:
  "(\<exists>!t. check sample_parse stubs listPets
       \<lparr> rr_status = 200, rr_headers = [(''Content-Type'', ''application/json'')],
         rr_text = ''[]'' \<rparr> t)
   \<and> check sample_parse stubs listPets
       \<lparr> rr_status = 200, rr_headers = [(''Content-Type'', ''application/json'')],
         rr_text = ''[]'' \<rparr> Success"
proof -
  have h: "tag_of (dispatcher sample_parse stubs listPets
       \<lparr> rr_status = 200, rr_headers = [(''Content-Type'', ''application/json'')],
         rr_text = ''[]'' \<rparr>) = Success"
    by (simp add: eval_defs)
  from classifier_exactly_one_variant [of sample_parse stubs listPets
       "\<lparr> rr_status = 200, rr_headers = [(''Content-Type'', ''application/json'')],
          rr_text = ''[]'' \<rparr>"]
  show ?thesis unfolding h .
qed

section \<open>The order of the decisions\<close>

text \<open>
  C2, as amended. For every response whose status is not a key of the schema table the
  outcome is \<open>UnexpectedStatus\<close> with that status and the body text, whatever the
  content type, the text and the decoders are; and for every declared status that has a
  body (at least one declared content type), when the header includes none of the
  declared content types the outcome is \<open>UnexpectedContentType\<close>, whether or not the
  text would parse and decode.
\<close>

theorem status_then_content_type_priority:
  "(schema_table D opn (rr_status r) = None \<longrightarrow>
      dispatcher JSON_parse D opn r = Inl (UnexpectedStatus (rr_status r) (rr_text r)))
   \<and> (\<forall>entries. schema_table D opn (rr_status r) = Some entries \<and> entries \<noteq> []
          \<and> matched_entry (content_type_of r) entries = None \<longrightarrow>
        tag_of (dispatcher JSON_parse D opn r) = Tag_UnexpectedContentType)"
  by (simp add: dispatcher_undeclared dispatcher_mismatch)

theorem status_then_content_type_priority_witness:
  "schema_table stubs listPets 418 = None
   \<and> dispatcher sample_parse stubs listPets
       \<lparr> rr_status = 418, rr_headers = [(''content-type'', ''application/json'')],
         rr_text = ''[]'' \<rparr>
     = Inl (UnexpectedStatus 418 ''[]'')
   \<and> schema_table stubs listPets 200 = Some [(''application/json'', stub)]
   \<and> matched_entry (Some ''text/html'')
         [(''application/json'', stub :: (string, unit, string) decoder)] = None
   \<and> sample_parse ''[]'' = Inr ''[]''
   \<and> tag_of (dispatcher sample_parse stubs listPets
       \<lparr> rr_status = 200, rr_headers = [(''content-type'', ''text/html'')],
         rr_text = ''[]'' \<rparr>)
     = Tag_UnexpectedContentType"
  using status_then_content_type_priority [of stubs listPets
      "\<lparr> rr_status = 418, rr_headers = [(''content-type'', ''application/json'')],
         rr_text = ''[]'' \<rparr>"
      sample_parse]
    status_then_content_type_priority [of stubs listPets
      "\<lparr> rr_status = 200, rr_headers = [(''content-type'', ''text/html'')],
         rr_text = ''[]'' \<rparr>"
      sample_parse]
  by (simp add: generated_Decoders_def content_type_of_def Headers_get_def byte_lowercase_def
        matched_entry_def header_includes_def sample_parse_def)

text \<open>
  As stated, without the restriction to statuses that have a body, the second half fails:
  status 204 of deletePet is declared, a header \<open>text/html\<close> matches none of its (no)
  content types, and the outcome is the no-content variant.
\<close>

theorem mismatch_counterexample:
  "\<not> mismatch_gives_UnexpectedContentType sample_parse stubs deletePet
     \<lparr> rr_status = 204, rr_headers = [(''content-type'', ''text/html'')], rr_text = ''[]'' \<rparr>"
  by (simp add: mismatch_gives_UnexpectedContentType_def eval_defs)

section \<open>The content-type match\<close>

text \<open>
  C3, as amended. For every response whose status is declared with a body, the match
  step succeeds exactly when the content-type header is present and contains a declared
  content type as a contiguous substring, compared byte by byte: parameters after the
  type are tolerated, a difference in case is not, and a longer media type that contains
  the declared one matches.
\<close>

theorem match_step_is_substring_test:
  "schema_table D opn (rr_status r) = Some entries \<Longrightarrow> entries \<noteq> [] \<Longrightarrow>
   (tag_of (dispatcher JSON_parse D opn r) = Tag_UnexpectedContentType)
     = (\<not> (\<exists>h pre post ct. content_type_of r = Some h \<and> ct \<in> set (map fst entries)
             \<and> h = pre @ ct @ post))"
proof -
  assume tbl: "schema_table D opn (rr_status r) = Some entries" and ne: "entries \<noteq> []"
  from ne obtain e es where entries: "entries = e # es" by (cases entries) auto
  from dispatcher_json [of D opn r e es JSON_parse] tbl entries
  have ct: "fst e = ''application/json''" and es: "es = []" by simp_all
  have inc: "header_includes (content_type_of r) ''application/json''
     = (\<exists>h pre post. content_type_of r = Some h \<and> h = pre @ ''application/json'' @ post)"
    by (cases "content_type_of r") (simp_all add: header_includes_def String_includes_iff)
  have m: "(matched_entry (content_type_of r) entries = None)
     = (\<not> header_includes (content_type_of r) ''application/json'')"
    using ct by (cases e) (simp add: matched_entry_def entries es)
  from check_iff [of JSON_parse D opn r Tag_UnexpectedContentType]
  have "(tag_of (dispatcher JSON_parse D opn r) = Tag_UnexpectedContentType)
     = (matched_entry (content_type_of r) entries = None)"
    using tbl ne by auto
  with m inc entries es ct show ?thesis by simp
qed

theorem match_step_is_substring_test_witness:
  "schema_table stubs listPets 200 = Some [(''application/json'', stub)]
   \<and> tag_of (dispatcher sample_parse stubs listPets
       \<lparr> rr_status = 200, rr_headers = [(''content-type'', ''application/json; charset=utf-8'')],
         rr_text = ''[]'' \<rparr>) \<noteq> Tag_UnexpectedContentType
   \<and> tag_of (dispatcher sample_parse stubs listPets
       \<lparr> rr_status = 200, rr_headers = [(''content-type'', ''Application/JSON; charset=utf-8'')],
         rr_text = ''[]'' \<rparr>) = Tag_UnexpectedContentType
   \<and> tag_of (dispatcher sample_parse stubs listPets
       \<lparr> rr_status = 200, rr_headers = [(''content-type'', ''application/json-patch+json'')],
         rr_text = ''[]'' \<rparr>) \<noteq> Tag_UnexpectedContentType"
proof -
  have tbl: "schema_table stubs listPets 200 = Some [(''application/json'', stub)]"
    by (simp add: generated_Decoders_def)
  have h1: "content_type_of \<lparr> rr_status = 200,
      rr_headers = [(''content-type'', ''application/json; charset=utf-8'')], rr_text = ''[]'' \<rparr>
     = Some ([] @ ''application/json'' @ ''; charset=utf-8'')"
    by (simp add: content_type_of_def Headers_get_def)
  have h2: "content_type_of \<lparr> rr_status = 200,
      rr_headers = [(''content-type'', ''Application/JSON; charset=utf-8'')], rr_text = ''[]'' \<rparr>
     = Some ''Application/JSON; charset=utf-8''"
    by (simp add: content_type_of_def Headers_get_def)
  have h3: "content_type_of \<lparr> rr_status = 200,
      rr_headers = [(''content-type'', ''application/json-patch+json'')], rr_text = ''[]'' \<rparr>
     = Some ([] @ ''application/json'' @ ''-patch+json'')"
    by (simp add: content_type_of_def Headers_get_def)
  have no: "\<not> String_includes ''Application/JSON; charset=utf-8'' ''application/json''"
    by simp
  from match_step_is_substring_test [of stubs listPets
      "\<lparr> rr_status = 200, rr_headers = [(''content-type'', ''application/json; charset=utf-8'')],
         rr_text = ''[]'' \<rparr>" "[(''application/json'', stub)]" sample_parse] tbl h1
  have a: "tag_of (dispatcher sample_parse stubs listPets
       \<lparr> rr_status = 200, rr_headers = [(''content-type'', ''application/json; charset=utf-8'')],
         rr_text = ''[]'' \<rparr>) \<noteq> Tag_UnexpectedContentType"
    by auto
  from match_step_is_substring_test [of stubs listPets
      "\<lparr> rr_status = 200, rr_headers = [(''content-type'', ''Application/JSON; charset=utf-8'')],
         rr_text = ''[]'' \<rparr>" "[(''application/json'', stub)]" sample_parse] tbl h2 no
  have b: "tag_of (dispatcher sample_parse stubs listPets
       \<lparr> rr_status = 200, rr_headers = [(''content-type'', ''Application/JSON; charset=utf-8'')],
         rr_text = ''[]'' \<rparr>) = Tag_UnexpectedContentType"
    by (simp add: String_includes_iff)
  from match_step_is_substring_test [of stubs listPets
      "\<lparr> rr_status = 200, rr_headers = [(''content-type'', ''application/json-patch+json'')],
         rr_text = ''[]'' \<rparr>" "[(''application/json'', stub)]" sample_parse] tbl h3
  have c: "tag_of (dispatcher sample_parse stubs listPets
       \<lparr> rr_status = 200, rr_headers = [(''content-type'', ''application/json-patch+json'')],
         rr_text = ''[]'' \<rparr>) \<noteq> Tag_UnexpectedContentType"
    by auto
  from tbl a b c show ?thesis by simp
qed

text \<open>
  The match step does not compare base media types without regard to case: the header
  \<open>Application/JSON; charset=utf-8\<close> is refused at a status that declares
  \<open>application/json\<close>, and \<open>application/json-patch+json\<close> is accepted there.
\<close>

theorem match_step_counterexample:
  "\<not> match_step_compares_media_types sample_parse stubs listPets
       \<lparr> rr_status = 200, rr_headers = [(''content-type'', ''Application/JSON; charset=utf-8'')],
         rr_text = ''[]'' \<rparr>
   \<and> \<not> match_step_compares_media_types sample_parse stubs listPets
       \<lparr> rr_status = 200, rr_headers = [(''content-type'', ''application/json-patch+json'')],
         rr_text = ''[]'' \<rparr>"
  by (simp add: match_step_compares_media_types_def media_type_matches_def base_media_type_def
        trim_def is_space_def eval_defs)

text \<open>
  C6, as amended. For every declared status that has a body (at least one declared
  content type) whose content-type header is absent or contains none of the declared
  content types as a substring, the outcome is an \<open>UnexpectedContentType\<close> whose
  \<open>expected\<close> is the full list of content types the schema table declares for that
  status, whose \<open>actual\<close> is the value of the content-type header as received (absent
  when there is none) and whose body is the raw text; and every \<open>UnexpectedContentType\<close>
  a dispatcher answers has these fields.
\<close>

theorem unexpectedContentType_fields:
  "(\<forall>st expected actual bd.
      dispatcher JSON_parse D opn r = Inl (UnexpectedContentType st expected actual bd) \<longrightarrow>
      st = rr_status r \<and> actual = content_type_of r \<and> bd = rr_text r
      \<and> (\<exists>entries. schema_table D opn (rr_status r) = Some entries
            \<and> expected = map fst entries))
   \<and> (\<forall>entries. schema_table D opn (rr_status r) = Some entries \<and> entries \<noteq> []
          \<and> matched_entry (content_type_of r) entries = None \<longrightarrow>
        dispatcher JSON_parse D opn r
          = Inl (UnexpectedContentType (rr_status r) (map fst entries) (content_type_of r)
              (rr_text r)))"
proof (intro conjI allI impI)
  fix st expected actual bd
  assume res: "dispatcher JSON_parse D opn r = Inl (UnexpectedContentType st expected actual bd)"
  then have "tag_of (dispatcher JSON_parse D opn r) = Tag_UnexpectedContentType" by simp
  with check_iff [of JSON_parse D opn r Tag_UnexpectedContentType]
  have "check JSON_parse D opn r Tag_UnexpectedContentType" by simp
  then obtain entries where tbl: "schema_table D opn (rr_status r) = Some entries"
    and ne: "entries \<noteq> []" and nm: "matched_entry (content_type_of r) entries = None"
    by (auto split: option.splits)
  from dispatcher_mismatch [OF tbl ne nm, of JSON_parse] res
  have "st = rr_status r" "expected = map fst entries" "actual = content_type_of r"
    "bd = rr_text r"
    by simp_all
  with tbl show "st = rr_status r" "actual = content_type_of r" "bd = rr_text r"
    "\<exists>entries. schema_table D opn (rr_status r) = Some entries \<and> expected = map fst entries"
    by simp_all
next
  fix entries
  assume "schema_table D opn (rr_status r) = Some entries \<and> entries \<noteq> []
          \<and> matched_entry (content_type_of r) entries = None"
  then show "dispatcher JSON_parse D opn r
          = Inl (UnexpectedContentType (rr_status r) (map fst entries) (content_type_of r)
              (rr_text r))"
    by (simp add: dispatcher_mismatch)
qed

theorem unexpectedContentType_fields_witness:
  "schema_table stubs listPets 200 = Some [(''application/json'', stub)]
   \<and> matched_entry (Some ''text/html'')
         [(''application/json'', stub :: (string, unit, string) decoder)] = None
   \<and> dispatcher sample_parse stubs listPets
       \<lparr> rr_status = 200, rr_headers = [(''content-type'', ''text/html'')],
         rr_text = ''<html><body>Hello</body></html>'' \<rparr>
     = Inl (UnexpectedContentType 200 [''application/json''] (Some ''text/html'')
         ''<html><body>Hello</body></html>'')"
proof -
  let ?r = "\<lparr> rr_status = 200, rr_headers = [(''content-type'', ''text/html'')],
         rr_text = ''<html><body>Hello</body></html>'' \<rparr>"
  let ?entries = "[(''application/json'', stub :: (string, unit, string) decoder)]"
  have tbl: "schema_table stubs listPets (rr_status ?r) = Some ?entries"
    by (simp add: generated_Decoders_def)
  have ct: "content_type_of ?r = Some ''text/html''"
    by (simp add: content_type_of_def Headers_get_def)
  have nm: "matched_entry (Some ''text/html'') ?entries = None"
    by (simp add: matched_entry_def header_includes_def)
  have pre: "schema_table stubs listPets (rr_status ?r) = Some ?entries \<and> ?entries \<noteq> []
     \<and> matched_entry (content_type_of ?r) ?entries = None"
    using tbl nm ct by simp
  from unexpectedContentType_fields [of sample_parse stubs listPets ?r,
      THEN conjunct2, rule_format, OF pre]
  have "dispatcher sample_parse stubs listPets ?r
     = Inl (UnexpectedContentType (rr_status ?r) (map fst ?entries) (content_type_of ?r)
         (rr_text ?r))" .
  with tbl nm ct show ?thesis by simp
qed

text \<open>
  As stated, for every declared status and every content type outside its declared set,
  the sentence fails: status 204 of deletePet declares no content type, and a response
  with the header \<open>text/html\<close> is the no-content variant; status 200 of listPets
  declares \<open>application/json\<close> only, and a response with the header
  \<open>application/json-patch+json\<close> is parsed and decoded.
\<close>

theorem unexpectedContentType_fields_counterexample:
  "\<not> mismatch_reports_declared_set sample_parse stubs deletePet
       \<lparr> rr_status = 204, rr_headers = [(''content-type'', ''text/html'')],
         rr_text = ''<html></html>'' \<rparr>
   \<and> \<not> mismatch_reports_declared_set sample_parse stubs listPets
       \<lparr> rr_status = 200, rr_headers = [(''content-type'', ''application/json-patch+json'')],
         rr_text = ''[]'' \<rparr>"
  by (simp add: mismatch_reports_declared_set_def media_type_matches_def base_media_type_def
        trim_def is_space_def eval_defs)

section \<open>Parse errors\<close>

text \<open>
  C7. For every response whose status and content type match an entry of the schema
  table and whose text \<open>JSON.parse\<close> rejects, the outcome is a \<open>ParseError\<close> with the
  status, the matched content type, the thrown error as cause (an \<open>Error\<close> object,
  never null) and, as body, the text of the response unchanged.
\<close>

theorem parse_error_keeps_raw_body:
  "schema_table D opn (rr_status r) = Some entries \<Longrightarrow>
   matched_entry (content_type_of r) entries = Some (ct, d) \<Longrightarrow>
   JSON_parse (rr_text r) = Inl e \<Longrightarrow>
   dispatcher JSON_parse D opn r = Inl (ParseError (rr_status r) ct (toError e) (rr_text r))"
  by (simp add: dispatcher_matched)

theorem parse_error_keeps_raw_body_witness:
  \<open>schema_table stubs listPets 200 = Some [(''application/json'', stub)]
   \<and> matched_entry (Some ''application/json'')
         [(''application/json'', stub :: (string, unit, string) decoder)]
       = Some (''application/json'', stub)
   \<and> sample_parse ''{"bad": json}''
       = Inl (ThrownError (JsError ''SyntaxError'' ''Unexpected token''))
   \<and> dispatcher sample_parse stubs listPets
       \<lparr> rr_status = 200, rr_headers = [(''content-type'', ''application/json'')],
         rr_text = ''{"bad": json}'' \<rparr>
     = Inl (ParseError 200 ''application/json'' (JsError ''SyntaxError'' ''Unexpected token'')
         ''{"bad": json}'')\<close>
  using parse_error_keeps_raw_body [of stubs listPets
      \<open>\<lparr> rr_status = 200, rr_headers = [(''content-type'', ''application/json'')],
         rr_text = ''{"bad": json}'' \<rparr>\<close>
      "[(''application/json'', stub)]" "''application/json''" stub sample_parse
      "ThrownError (JsError ''SyntaxError'' ''Unexpected token'')"]
  by (simp add: generated_Decoders_def content_type_of_def Headers_get_def byte_lowercase_def
        matched_entry_def header_includes_def sample_parse_def toError_def)

section \<open>Determinism\<close>

text \<open>
  C8. The outcome of a dispatcher is a function of the response's status, its body text
  and the value of its content-type header (for fixed \<open>JSON.parse\<close> and decoders): two
  responses that agree on these three are classified alike, so classifying the same
  response twice gives equal outcomes.
\<close>

theorem classification_is_a_function_of_status_header_text:
  "rr_status r1 = rr_status r2 \<Longrightarrow> rr_text r1 = rr_text r2 \<Longrightarrow>
   content_type_of r1 = content_type_of r2 \<Longrightarrow>
   dispatcher JSON_parse D opn r1 = dispatcher JSON_parse D opn r2"
  by (cases opn)
     (simp_all add: dispatcherlistPets_def dispatchercreatePet_def dispatchergetPet_def
        dispatcherdeletePet_def createDispatcher_def content_type_of_def Let_def
      cong: if_cong)

theorem classification_is_a_function_witness:
  "content_type_of \<lparr> rr_status = 200,
       rr_headers = [(''Content-Type'', ''application/json''), (''x-request-id'', ''1'')],
       rr_text = ''[]'' \<rparr>
     = content_type_of \<lparr> rr_status = 200,
       rr_headers = [(''date'', ''today''), (''content-type'', ''application/json'')],
       rr_text = ''[]'' \<rparr>
   \<and> dispatcher sample_parse stubs listPets
       \<lparr> rr_status = 200,
         rr_headers = [(''Content-Type'', ''application/json''), (''x-request-id'', ''1'')],
         rr_text = ''[]'' \<rparr>
     = dispatcher sample_parse stubs listPets
       \<lparr> rr_status = 200,
         rr_headers = [(''date'', ''today''), (''content-type'', ''application/json'')],
         rr_text = ''[]'' \<rparr>"
  using classification_is_a_function_of_status_header_text [of
      "\<lparr> rr_status = 200,
         rr_headers = [(''Content-Type'', ''application/json''), (''x-request-id'', ''1'')],
         rr_text = ''[]'' \<rparr>"
      "\<lparr> rr_status = 200,
         rr_headers = [(''date'', ''today''), (''content-type'', ''application/json'')],
         rr_text = ''[]'' \<rparr>" sample_parse stubs listPets]
  by (simp add: content_type_of_def Headers_get_def byte_lowercase_def ascii_lower_def)

section \<open>Success and HTTP error\<close>

text \<open>
  C4. The filter \<open>HttpErrorVariants\<close> keeps a variant of status 209 or 299 and the
  filter \<open>SuccessVariants\<close> drops it, although both statuses lie in the range from 200
  to 299: the filters test membership in the ten statuses 200 to 208 and 226.
\<close>

theorem status_209_is_an_HttpError:
  "HttpErrorVariants \<lparr> status = 209, contentType = ''application/json'', body = Some b \<rparr>
   \<and> \<not> SuccessVariants \<lparr> status = 209, contentType = ''application/json'', body = Some b \<rparr>
   \<and> HttpErrorVariants \<lparr> status = 299, contentType = ''application/json'', body = Some b \<rparr>
   \<and> \<not> SuccessVariants \<lparr> status = 299, contentType = ''application/json'', body = Some b \<rparr>"
  by (simp add: HttpErrorVariants_def SuccessVariants_def)

section \<open>The transport executor\<close>




section \<open>The URL of a request\<close>

text \<open>
  C9. For the path template \<open>/pets/{petId}/owners/{petId}\<close> and the path parameter
  \<open>petId = 42\<close>, the URL that \<open>makeRequest\<close> computes still holds the second
  placeholder: only the first occurrence is substituted.
\<close>

theorem repeated_placeholder_url:
  "makeRequest_url ''/pets/{petId}/owners/{petId}''
     \<lparr> opt_dispatcher = disp, opt_baseUrl = ''https://api.example.com'',
       opt_params = Some [(''petId'', ''42'')], opt_query = None,
       opt_headers = None, opt_body = None, opt_signal = None \<rparr>
   = ''https://api.example.com/pets/42/owners/{petId}''"
  by (simp add: makeRequest_url_def encodeURIComponent_def alphanumeric_def)

section \<open>No-content statuses\<close>

text \<open>
  C10. In the deletePet dispatcher every response with status 204 is classified as the
  variant \<open>{status: 204, contentType: "none", body: undefined}\<close>, whatever its headers
  and its body text: neither the content type nor the text is looked at.
\<close>

theorem deletePet_204_no_content:
  "dispatcherdeletePet JSON_parse D \<lparr> rr_status = 204, rr_headers = hs, rr_text = txt \<rparr>
     = Inr \<lparr> status = 204, contentType = ''none'', body = None \<rparr>"
  by (simp add: dispatcherdeletePet_def createDispatcher_def)

end
